theory Spec2Isabelle
  imports Complex_Main "HOL-Library.Sublist"
begin

section \<open>Ticker: the frame scheduler (src/utils/Ticker.js)\<close>

text \<open>
  Listener objects are compared by identity (\<open>indexOf\<close> uses strict equality), so an
  object is its identity, a natural number; \<open>None\<close> is JavaScript's \<open>null\<close>.
  Times are the integer milliseconds of \<open>Date.getTime()\<close>.
\<close>

type_synonym obj = nat

text \<open>
  What a listener's \<open>tick\<close> callback may do to the scheduler while it runs: calls of the
  public registration interface.
\<close>

datatype action =
    AddListener "obj option" "bool option"
  | RemoveListener "obj option"
  | RemoveAllListeners
  | SetPaused bool

text \<open>
  The static fields of \<open>Ticker\<close>. \<open>_pauseable\<close> holds a reference to an array: \<open>_tick\<close>
  keeps that reference in a local variable while callbacks run, \<open>splice\<close> and indexed
  assignment change the array in place, and \<open>removeAllListeners\<close> stores a new array. So the
  field \<open>pauseable\<close> is an address into \<open>heap\<close>. \<open>_listeners\<close> is copied with \<open>slice()\<close>
  before it is iterated and is a plain list; it is initialised to \<open>[]\<close> and only ever
  assigned arrays, so the \<open>null\<close> guard of \<open>removeListener\<close> never fires.
  \<open>frames\<close> counts the calls of \<open>requestAnimFrame\<close>, \<open>calls\<close> logs every
  \<open>listener.tick(elapsedTime)\<close> in order.
\<close>

record ticker =
  listeners :: "obj option list"
  pauseable :: nat
  heap :: "nat \<Rightarrow> bool list"
  fresh :: nat
  paused :: bool
  inited :: bool
  startTime :: int
  pausedTime :: int
  ticks :: int
  pausedTickers :: int
  lastTime :: int
  times :: "int list"
  frames :: nat
  calls :: "(obj \<times> int) list"

definition Ticker_init :: ticker where
  "Ticker_init = \<lparr> listeners = [], pauseable = 0, heap = (\<lambda>_. []), fresh = 1,
     paused = False, inited = False, startTime = 0, pausedTime = 0, ticks = 0,
     pausedTickers = 0, lastTime = 0, times = [], frames = 0, calls = [] \<rparr>"

definition pauseableArr :: "ticker \<Rightarrow> bool list" where
  "pauseableArr s = heap s (pauseable s)"

text \<open>
  Array access as JavaScript does it: a read past the end gives \<open>undefined\<close>, which every
  reader below uses as a condition (so it is \<open>False\<close>); a write past the end extends the
  array, the holes reading as \<open>undefined\<close>.
\<close>

definition js_get :: "bool list \<Rightarrow> nat \<Rightarrow> bool" where
  "js_get xs i = (if i < length xs then xs ! i else False)"

definition js_put :: "bool list \<Rightarrow> nat \<Rightarrow> bool \<Rightarrow> bool list" where
  "js_put xs i v =
     (if i < length xs then xs[i := v] else xs @ replicate (i - length xs) False @ [v])"

fun indexOf :: "'a list \<Rightarrow> 'a \<Rightarrow> nat option" where
  "indexOf [] x = None"
| "indexOf (y # ys) x = (if y = x then Some 0 else map_option Suc (indexOf ys x))"

definition splice1 :: "nat \<Rightarrow> 'a list \<Rightarrow> 'a list" where
  "splice1 i xs = take i xs @ drop (Suc i) xs"

definition requestAnimFrame :: "ticker \<Rightarrow> ticker" where
  "requestAnimFrame s = s\<lparr>frames := Suc (frames s)\<rparr>"

definition removeListener :: "obj option \<Rightarrow> ticker \<Rightarrow> ticker" where
  "removeListener ob s =
     (case indexOf (listeners s) ob of
        None \<Rightarrow> s
      | Some index \<Rightarrow>
          s\<lparr>listeners := splice1 index (listeners s),
            heap := (heap s)(pauseable s := splice1 index (pauseableArr s))\<rparr>)"

definition addListener :: "obj option \<Rightarrow> bool option \<Rightarrow> ticker \<Rightarrow> ticker" where
  "addListener ob opt_pauseable s =
     (let s1 = (if \<not> inited s then requestAnimFrame (s\<lparr>inited := True\<rparr>) else s);
          s2 = removeListener ob s1;
          s3 = s2\<lparr>heap := (heap s2)(pauseable s2 :=
                 js_put (pauseableArr s2) (length (listeners s2))
                   (case opt_pauseable of Some True \<Rightarrow> True | _ \<Rightarrow> False))\<rparr>
      in s3\<lparr>listeners := listeners s3 @ [ob]\<rparr>)"

definition removeAllListeners :: "ticker \<Rightarrow> ticker" where
  "removeAllListeners s =
     s\<lparr>listeners := [], pauseable := fresh s, heap := (heap s)(fresh s := []),
       fresh := Suc (fresh s)\<rparr>"

definition setPaused :: "bool \<Rightarrow> ticker \<Rightarrow> ticker" where
  "setPaused v s = s\<lparr>paused := v\<rparr>"

definition getPaused :: "ticker \<Rightarrow> bool" where
  "getPaused s = paused s"

text \<open>\<open>now\<close> is the value of \<open>Ticker._getTime()\<close>, the wall clock.\<close>

definition getTime :: "bool \<Rightarrow> int \<Rightarrow> ticker \<Rightarrow> int" where
  "getTime pz now s = now - startTime s - (if pz then pausedTime s else 0)"

definition getTicks :: "bool \<Rightarrow> ticker \<Rightarrow> int" where
  "getTicks pz s = ticks s - (if pz then pausedTickers s else 0)"

fun exec_action :: "action \<Rightarrow> ticker \<Rightarrow> ticker" where
  "exec_action (AddListener ob p) s = addListener ob p s"
| "exec_action (RemoveListener ob) s = removeListener ob s"
| "exec_action RemoveAllListeners s = removeAllListeners s"
| "exec_action (SetPaused v) s = setPaused v s"

fun run_actions :: "action list \<Rightarrow> ticker \<Rightarrow> ticker" where
  "run_actions [] s = s"
| "run_actions (a # as) s = run_actions as (exec_action a s)"

text \<open>
  The listener loop of \<open>_tick\<close>. \<open>tick_of ob\<close> is the \<open>tick\<close> method of object \<open>ob\<close>
  (\<open>None\<close> when it has none), \<open>pz\<close> the local \<open>paused\<close>, \<open>pa\<close> the local reference
  \<open>pauseable\<close>, the list the rest of the local copy \<open>listeners\<close> and \<open>i\<close> the loop index.
\<close>

fun tick_loop ::
  "(obj \<Rightarrow> action list option) \<Rightarrow> bool \<Rightarrow> int \<Rightarrow> nat \<Rightarrow> obj option list \<Rightarrow> nat \<Rightarrow> ticker \<Rightarrow> ticker"
where
  "tick_loop tick_of pz elapsedTime pa [] i s = s"
| "tick_loop tick_of pz elapsedTime pa (listener # rest) i s =
     (let p = js_get (heap s pa) i in
      case listener of
        None \<Rightarrow> tick_loop tick_of pz elapsedTime pa rest (Suc i) s
      | Some ob \<Rightarrow>
          if pz \<and> p then tick_loop tick_of pz elapsedTime pa rest (Suc i) s
          else (case tick_of ob of
                  None \<Rightarrow> tick_loop tick_of pz elapsedTime pa rest (Suc i) s
                | Some body \<Rightarrow>
                    tick_loop tick_of pz elapsedTime pa rest (Suc i)
                      (run_actions body (s\<lparr>calls := calls s @ [(ob, elapsedTime)]\<rparr>))))"

definition tick :: "(obj \<Rightarrow> action list option) \<Rightarrow> int \<Rightarrow> ticker \<Rightarrow> ticker" where
  "tick tick_of now s =
     (let s1 = requestAnimFrame s;
          s2 = s1\<lparr>ticks := ticks s1 + 1\<rparr>;
          time = getTime False now s2;
          elapsedTime = time - lastTime s2;
          pz = paused s2;
          s3 = (if pz then s2\<lparr>pausedTickers := pausedTickers s2 + 1,
                              pausedTime := pausedTime s2 + elapsedTime\<rparr> else s2);
          s4 = s3\<lparr>lastTime := time\<rparr>;
          s5 = tick_loop tick_of pz elapsedTime (pauseable s4) (listeners s4) 0 s4;
          s6 = s5\<lparr>times := time # times s5\<rparr>
      in if length (times s6) > 100 then s6\<lparr>times := butlast (times s6)\<rparr> else s6)"

text \<open>
  The value of a JavaScript number expression that divides: a finite quotient, computed
  exactly here, \<open>Infinity\<close> for a positive number over zero, \<open>NaN\<close> when an operand is
  \<open>undefined\<close>.
\<close>

datatype jsnum = Num rat | Infinity | NaN

text \<open>
  \<open>getMeasuredFPS(ticks)\<close>; the argument is \<open>None\<close> when omitted and an integer otherwise.
  \<open>ticks || 5\<close> replaces an omitted argument and \<open>0\<close> by 5. After the \<open>min\<close> the index is at
  most \<open>length - 1\<close>; a negative one reads \<open>undefined\<close>.
\<close>

definition getMeasuredFPS :: "int option \<Rightarrow> ticker \<Rightarrow> jsnum" where
  "getMeasuredFPS opt_ticks s =
     (if length (times s) < 2 then Num (- 1)
      else
        let t1 = (case opt_ticks of None \<Rightarrow> 5 | Some n \<Rightarrow> if n = 0 then 5 else n);
            t2 = min (int (length (times s)) - 1) t1
        in if t2 < 0 then NaN
           else
             let d = of_int (times s ! 0 - times s ! nat t2) / (of_int t2 :: rat)
             in if d = 0 then Infinity else Num (1000 / d))"


section \<open>Graphics: the deferred drawing-command buffer (src/display/Graphics.js)\<close>

text \<open>
  A \<open>Graphics.Command\<close> is a context method with its parameters; \<open>_setProp\<close> assigns a
  property of the context. Numbers are reals here: the buffer only stores and forwards them.
  A gradient is the \<open>create...Gradient\<close> call with the colour stops added to it, in order; a
  stop's offset is \<open>None\<close> where \<open>ratios[i]\<close> is read past the end of \<open>ratios\<close>.
\<close>

type_synonym image = nat

datatype jsval =
    Str string
  | Number real
  | Undefined
  | LinearGradient real real real real "(real option \<times> string) list"
  | RadialGradient real real real real real real "(real option \<times> string) list"
  | Pattern image string

datatype command =
    BeginPath
  | Fill
  | Stroke
  | MoveTo real real
  | LineTo real real
  | ArcTo real real real real real
  | Arc real real real real real bool
  | QuadraticCurveTo real real real real
  | BezierCurveTo real real real real real real
  | Rect real real real real
  | ClosePath
  | SetProp string jsval

record graphics =
  instructions :: "command list"
  oldInstructions :: "command list"
  activeInstructions :: "command list"
  strokeStyleInstructions :: "command list option"
  strokeInstructions :: "command list option"
  fillInstructions :: "command list option"
  active :: bool
  dirty :: bool

definition clear :: "graphics \<Rightarrow> graphics" where
  "clear g = \<lparr> instructions = [], oldInstructions = [], activeInstructions = [],
     strokeStyleInstructions = None, strokeInstructions = None, fillInstructions = None,
     active = False, dirty = False \<rparr>"

text \<open>The constructor calls \<open>clear\<close> on the new object.\<close>

definition Graphics_new :: graphics where
  "Graphics_new = \<lparr> instructions = [], oldInstructions = [], activeInstructions = [],
     strokeStyleInstructions = None, strokeInstructions = None, fillInstructions = None,
     active = False, dirty = False \<rparr>"

definition updateInstructions :: "graphics \<Rightarrow> graphics" where
  "updateInstructions g =
     g\<lparr>instructions :=
         oldInstructions g @ [BeginPath]
         @ (case fillInstructions g of Some f \<Rightarrow> f | None \<Rightarrow> [])
         @ (case strokeInstructions g of
              Some st \<Rightarrow> st @ (case strokeStyleInstructions g of Some ss \<Rightarrow> ss | None \<Rightarrow> [])
            | None \<Rightarrow> [])
         @ activeInstructions g
         @ (case fillInstructions g of Some f \<Rightarrow> [Fill] | None \<Rightarrow> [])
         @ (case strokeInstructions g of Some st \<Rightarrow> [Stroke] | None \<Rightarrow> [])\<rparr>"

definition newPath :: "graphics \<Rightarrow> graphics" where
  "newPath g =
     (let g1 = (if dirty g then updateInstructions g else g)
      in g1\<lparr>oldInstructions := instructions g1, activeInstructions := [],
            active := False, dirty := False\<rparr>)"

text \<open>
  \<open>draw(ctx)\<close> returns the buffer and the commands it executes on the context, in order.
\<close>

definition draw :: "graphics \<Rightarrow> graphics \<times> command list" where
  "draw g = (let g1 = (if dirty g then updateInstructions g else g) in (g1, instructions g1))"

definition push :: "command list \<Rightarrow> graphics \<Rightarrow> graphics" where
  "push cs g = g\<lparr>activeInstructions := activeInstructions g @ cs\<rparr>"

definition touch :: "graphics \<Rightarrow> graphics" where
  "touch g = g\<lparr>dirty := True, active := True\<rparr>"

definition moveTo :: "real \<Rightarrow> real \<Rightarrow> graphics \<Rightarrow> graphics" where
  "moveTo x y g = push [MoveTo x y] g"

definition lineTo :: "real \<Rightarrow> real \<Rightarrow> graphics \<Rightarrow> graphics" where
  "lineTo x y g = push [LineTo x y] (touch g)"

definition arcTo :: "real \<Rightarrow> real \<Rightarrow> real \<Rightarrow> real \<Rightarrow> real \<Rightarrow> graphics \<Rightarrow> graphics" where
  "arcTo x1 y1 x2 y2 radius g = push [ArcTo x1 y1 x2 y2 radius] (touch g)"

definition arc ::
  "real \<Rightarrow> real \<Rightarrow> real \<Rightarrow> real \<Rightarrow> real \<Rightarrow> bool option \<Rightarrow> graphics \<Rightarrow> graphics" where
  "arc x y radius startAngle endAngle anticlockwise g =
     push [Arc x y radius startAngle endAngle
             (case anticlockwise of None \<Rightarrow> False | Some b \<Rightarrow> b)] (touch g)"

definition quadraticCurveTo :: "real \<Rightarrow> real \<Rightarrow> real \<Rightarrow> real \<Rightarrow> graphics \<Rightarrow> graphics" where
  "quadraticCurveTo cpx cpy x y g = push [QuadraticCurveTo cpx cpy x y] (touch g)"

definition bezierCurveTo ::
  "real \<Rightarrow> real \<Rightarrow> real \<Rightarrow> real \<Rightarrow> real \<Rightarrow> real \<Rightarrow> graphics \<Rightarrow> graphics" where
  "bezierCurveTo cp1x cp1y cp2x cp2y x y g = push [BezierCurveTo cp1x cp1y cp2x cp2y x y] (touch g)"

definition rect :: "real \<Rightarrow> real \<Rightarrow> real \<Rightarrow> real \<Rightarrow> graphics \<Rightarrow> graphics" where
  "rect x y w h g = push [Rect x y w h] (touch g)"

definition closePath :: "graphics \<Rightarrow> graphics" where
  "closePath g = (if active g then push [ClosePath] (g\<lparr>dirty := True\<rparr>) else g)"

definition drawRoundRectComplex ::
  "real \<Rightarrow> real \<Rightarrow> real \<Rightarrow> real \<Rightarrow> real \<Rightarrow> real \<Rightarrow> real \<Rightarrow> real \<Rightarrow> graphics \<Rightarrow> graphics" where
  "drawRoundRectComplex x y w h radiusTL radiusTR radiusBR radiusBL g =
     push [MoveTo (x + radiusTL) y,
           LineTo (x + w - radiusTR) y,
           Arc (x + w - radiusTR) (y + radiusTR) radiusTR (- pi / 2) 0 False,
           LineTo (x + w) (y + h - radiusBR),
           Arc (x + w - radiusBR) (y + h - radiusBR) radiusBR 0 (pi / 2) False,
           LineTo (x + radiusBL) (y + h),
           Arc (x + radiusBL) (y + h - radiusBL) radiusBL (pi / 2) pi False,
           LineTo x (y + radiusTL),
           Arc (x + radiusTL) (y + radiusTL) radiusTL pi (pi * 3 / 2) False] (touch g)"

definition drawRoundRect :: "real \<Rightarrow> real \<Rightarrow> real \<Rightarrow> real \<Rightarrow> real \<Rightarrow> graphics \<Rightarrow> graphics" where
  "drawRoundRect x y w h radius g = drawRoundRectComplex x y w h radius radius radius radius g"

definition drawCircle :: "real \<Rightarrow> real \<Rightarrow> real \<Rightarrow> graphics \<Rightarrow> graphics" where
  "drawCircle x y radius g = arc x y radius 0 (pi * 2) None g"

definition drawEllipse :: "real \<Rightarrow> real \<Rightarrow> real \<Rightarrow> real \<Rightarrow> graphics \<Rightarrow> graphics" where
  "drawEllipse x y w h g =
     (let k = 5522848 / 10000000;
          ox = (w / 2) * k; oy = (h / 2) * k;
          xe = x + w; ye = y + h;
          xm = x + w / 2; ym = y + h / 2
      in push [MoveTo x ym,
               BezierCurveTo x (ym - oy) (xm - ox) y xm y,
               BezierCurveTo (xm + ox) y xe (ym - oy) xe ym,
               BezierCurveTo xe (ym + oy) (xm + ox) ye xm ye,
               BezierCurveTo (xm - ox) ye x (ym + oy) x ym] (touch g))"

text \<open>
  The loop of \<open>drawPolyStar\<close>, for the remaining number of sides; \<open>pointSize\<close> is already
  \<open>1 - pointSize\<close> and \<open>angle\<close> in radians.
\<close>

fun polyStar_loop :: "real \<Rightarrow> real \<Rightarrow> real \<Rightarrow> real \<Rightarrow> real \<Rightarrow> real \<Rightarrow> nat \<Rightarrow> command list" where
  "polyStar_loop x y radius pointSize a angle 0 = []"
| "polyStar_loop x y radius pointSize a angle (Suc n) =
     (let angle1 = angle + a; angle2 = angle1 + a
      in (if pointSize \<noteq> 1
          then [LineTo (x + cos angle1 * radius * pointSize) (y + sin angle1 * radius * pointSize)]
          else [])
         @ LineTo (x + cos angle2 * radius) (y + sin angle2 * radius)
         # polyStar_loop x y radius pointSize a angle2 n)"

definition drawPolyStar ::
  "real \<Rightarrow> real \<Rightarrow> real \<Rightarrow> nat \<Rightarrow> real option \<Rightarrow> real option \<Rightarrow> graphics \<Rightarrow> graphics" where
  "drawPolyStar x y radius sides opt_pointSize opt_angle g =
     (let pointSize = 1 - (case opt_pointSize of None \<Rightarrow> 0 | Some p \<Rightarrow> p);
          angle = (case opt_angle of None \<Rightarrow> 0 | Some d \<Rightarrow> d / (180 / pi));
          a = pi / real sides
      in push (MoveTo (x + cos angle * radius) (y + sin angle * radius)
               # polyStar_loop x y radius pointSize a angle sides) (touch g))"

text \<open>
  The style-defining methods. Each starts with \<open>if (this._active) this._newPath()\<close>.
  A colour is \<open>None\<close> for \<open>null\<close>; \<open>color ? ... : null\<close> also takes the empty string as
  no colour.
\<close>

definition cut :: "graphics \<Rightarrow> graphics" where
  "cut g = (if active g then newPath g else g)"

definition colorStops :: "string list \<Rightarrow> real list \<Rightarrow> (real option \<times> string) list" where
  "colorStops colors ratios =
     map (\<lambda>i. (if i < length ratios then Some (ratios ! i) else None, colors ! i))
       [0 ..< length colors]"

definition beginFill :: "string option \<Rightarrow> graphics \<Rightarrow> graphics" where
  "beginFill color g =
     (cut g)\<lparr>fillInstructions :=
        (case color of
           None \<Rightarrow> None
         | Some c \<Rightarrow> if c = [] then None else Some [SetProp ''fillStyle'' (Str c)])\<rparr>"

definition beginLinearGradientFill ::
  "string list \<Rightarrow> real list \<Rightarrow> real \<Rightarrow> real \<Rightarrow> real \<Rightarrow> real \<Rightarrow> graphics \<Rightarrow> graphics" where
  "beginLinearGradientFill colors ratios x0 y0 x1 y1 g =
     (cut g)\<lparr>fillInstructions :=
        Some [SetProp ''fillStyle'' (LinearGradient x0 y0 x1 y1 (colorStops colors ratios))]\<rparr>"

definition beginRadialGradientFill ::
  "string list \<Rightarrow> real list \<Rightarrow> real \<Rightarrow> real \<Rightarrow> real \<Rightarrow> real \<Rightarrow> real \<Rightarrow> real \<Rightarrow> graphics \<Rightarrow> graphics" where
  "beginRadialGradientFill colors ratios x0 y0 r0 x1 y1 r1 g =
     (cut g)\<lparr>fillInstructions :=
        Some [SetProp ''fillStyle'' (RadialGradient x0 y0 r0 x1 y1 r1 (colorStops colors ratios))]\<rparr>"

definition beginBitmapFill :: "image \<Rightarrow> string option \<Rightarrow> graphics \<Rightarrow> graphics" where
  "beginBitmapFill img repetition g =
     (cut g)\<lparr>fillInstructions :=
        Some [SetProp ''fillStyle''
                (Pattern img (case repetition of None \<Rightarrow> [] | Some r \<Rightarrow> r))]\<rparr>"

definition endFill :: "graphics \<Rightarrow> graphics" where
  "endFill g = beginFill None g"

text \<open>
  \<open>caps\<close> and \<open>joints\<close> of \<open>setStrokeStyle\<close>: a name (\<open>isNaN\<close> holds, the name is used) or
  a number, looked up in \<open>STROKE_CAPS_MAP\<close> or \<open>STROKE_JOINTS_MAP\<close>.
\<close>

datatype strokearg = Name string | Index nat

definition STROKE_CAPS_MAP :: "string list" where
  "STROKE_CAPS_MAP = [''butt'', ''round'', ''square'']"

definition STROKE_JOINTS_MAP :: "string list" where
  "STROKE_JOINTS_MAP = [''miter'', ''round'', ''bevel'']"

definition lookupName :: "string list \<Rightarrow> strokearg \<Rightarrow> jsval" where
  "lookupName table a =
     (case a of
        Name n \<Rightarrow> Str n
      | Index i \<Rightarrow> if i < length table then Str (table ! i) else Undefined)"

definition setStrokeStyle ::
  "real option \<Rightarrow> strokearg option \<Rightarrow> strokearg option \<Rightarrow> real option \<Rightarrow> graphics \<Rightarrow> graphics" where
  "setStrokeStyle thickness caps joints miterLimit g =
     (cut g)\<lparr>strokeStyleInstructions := Some
        [SetProp ''lineWidth'' (case thickness of None \<Rightarrow> Str ''1'' | Some t \<Rightarrow> Number t),
         SetProp ''lineCap''
           (case caps of None \<Rightarrow> Str ''butt'' | Some c \<Rightarrow> lookupName STROKE_CAPS_MAP c),
         SetProp ''lineJoin''
           (case joints of None \<Rightarrow> Str ''miter'' | Some j \<Rightarrow> lookupName STROKE_JOINTS_MAP j),
         SetProp ''miterLimit''
           (case miterLimit of None \<Rightarrow> Str ''10'' | Some m \<Rightarrow> Number m)]\<rparr>"

definition beginStroke :: "string option \<Rightarrow> graphics \<Rightarrow> graphics" where
  "beginStroke color g =
     (cut g)\<lparr>strokeInstructions :=
        (case color of
           None \<Rightarrow> None
         | Some c \<Rightarrow> if c = [] then None else Some [SetProp ''strokeStyle'' (Str c)])\<rparr>"

definition beginLinearGradientStroke ::
  "string list \<Rightarrow> real list \<Rightarrow> real \<Rightarrow> real \<Rightarrow> real \<Rightarrow> real \<Rightarrow> graphics \<Rightarrow> graphics" where
  "beginLinearGradientStroke colors ratios x0 y0 x1 y1 g =
     (cut g)\<lparr>strokeInstructions :=
        Some [SetProp ''strokeStyle'' (LinearGradient x0 y0 x1 y1 (colorStops colors ratios))]\<rparr>"

definition beginRadialGradientStroke ::
  "string list \<Rightarrow> real list \<Rightarrow> real \<Rightarrow> real \<Rightarrow> real \<Rightarrow> real \<Rightarrow> real \<Rightarrow> real \<Rightarrow> graphics \<Rightarrow> graphics" where
  "beginRadialGradientStroke colors ratios x0 y0 r0 x1 y1 r1 g =
     (cut g)\<lparr>strokeInstructions :=
        Some [SetProp ''strokeStyle'' (RadialGradient x0 y0 r0 x1 y1 r1 (colorStops colors ratios))]\<rparr>"

definition beginBitmapStroke :: "image \<Rightarrow> string option \<Rightarrow> graphics \<Rightarrow> graphics" where
  "beginBitmapStroke img repetition g =
     (cut g)\<lparr>strokeInstructions :=
        Some [SetProp ''strokeStyle''
                (Pattern img (case repetition of None \<Rightarrow> [] | Some r \<Rightarrow> r))]\<rparr>"

definition endStroke :: "graphics \<Rightarrow> graphics" where
  "endStroke g = beginStroke None g"


text \<open>
  A call of the public interface of one buffer, and a sequence of calls in program order.
  \<open>Draw\<close> keeps the buffer that \<open>draw\<close> leaves behind.
\<close>

datatype gcall =
    CallMoveTo real real
  | CallLineTo real real
  | CallArcTo real real real real real
  | CallArc real real real real real "bool option"
  | CallQuadraticCurveTo real real real real
  | CallBezierCurveTo real real real real real real
  | CallRect real real real real
  | CallClosePath
  | CallClear
  | CallBeginFill "string option"
  | CallBeginLinearGradientFill "string list" "real list" real real real real
  | CallBeginRadialGradientFill "string list" "real list" real real real real real real
  | CallBeginBitmapFill image "string option"
  | CallEndFill
  | CallSetStrokeStyle "real option" "strokearg option" "strokearg option" "real option"
  | CallBeginStroke "string option"
  | CallBeginLinearGradientStroke "string list" "real list" real real real real
  | CallBeginRadialGradientStroke "string list" "real list" real real real real real real
  | CallBeginBitmapStroke image "string option"
  | CallEndStroke
  | CallDrawRoundRect real real real real real
  | CallDrawRoundRectComplex real real real real real real real real
  | CallDrawCircle real real real
  | CallDrawEllipse real real real real
  | CallDrawPolyStar real real real nat "real option" "real option"
  | CallDraw

fun invoke :: "gcall \<Rightarrow> graphics \<Rightarrow> graphics" where
  "invoke (CallMoveTo x y) g = moveTo x y g"
| "invoke (CallLineTo x y) g = lineTo x y g"
| "invoke (CallArcTo x1 y1 x2 y2 r) g = arcTo x1 y1 x2 y2 r g"
| "invoke (CallArc x y r sa ea ac) g = arc x y r sa ea ac g"
| "invoke (CallQuadraticCurveTo cpx cpy x y) g = quadraticCurveTo cpx cpy x y g"
| "invoke (CallBezierCurveTo cp1x cp1y cp2x cp2y x y) g = bezierCurveTo cp1x cp1y cp2x cp2y x y g"
| "invoke (CallRect x y w h) g = rect x y w h g"
| "invoke CallClosePath g = closePath g"
| "invoke CallClear g = clear g"
| "invoke (CallBeginFill c) g = beginFill c g"
| "invoke (CallBeginLinearGradientFill cs rs x0 y0 x1 y1) g =
     beginLinearGradientFill cs rs x0 y0 x1 y1 g"
| "invoke (CallBeginRadialGradientFill cs rs x0 y0 r0 x1 y1 r1) g =
     beginRadialGradientFill cs rs x0 y0 r0 x1 y1 r1 g"
| "invoke (CallBeginBitmapFill img rep) g = beginBitmapFill img rep g"
| "invoke CallEndFill g = endFill g"
| "invoke (CallSetStrokeStyle t c j m) g = setStrokeStyle t c j m g"
| "invoke (CallBeginStroke c) g = beginStroke c g"
| "invoke (CallBeginLinearGradientStroke cs rs x0 y0 x1 y1) g =
     beginLinearGradientStroke cs rs x0 y0 x1 y1 g"
| "invoke (CallBeginRadialGradientStroke cs rs x0 y0 r0 x1 y1 r1) g =
     beginRadialGradientStroke cs rs x0 y0 r0 x1 y1 r1 g"
| "invoke (CallBeginBitmapStroke img rep) g = beginBitmapStroke img rep g"
| "invoke CallEndStroke g = endStroke g"
| "invoke (CallDrawRoundRect x y w h r) g = drawRoundRect x y w h r g"
| "invoke (CallDrawRoundRectComplex x y w h rtl rtr rbr rbl) g =
     drawRoundRectComplex x y w h rtl rtr rbr rbl g"
| "invoke (CallDrawCircle x y r) g = drawCircle x y r g"
| "invoke (CallDrawEllipse x y w h) g = drawEllipse x y w h g"
| "invoke (CallDrawPolyStar x y r n ps an) g = drawPolyStar x y r n ps an g"
| "invoke CallDraw g = fst (draw g)"

fun invoke_all :: "gcall list \<Rightarrow> graphics \<Rightarrow> graphics" where
  "invoke_all [] g = g"
| "invoke_all (c # cs) g = invoke_all cs (invoke c g)"



text \<open>
  The order of the merged list as the specification words it: begin-path, fill style,
  stroke and stroke style, the committed list followed by the active list, fill, stroke.
\<close>

definition spec_merged :: "graphics \<Rightarrow> command list" where
  "spec_merged g =
     [BeginPath]
     @ (case fillInstructions g of Some f \<Rightarrow> f | None \<Rightarrow> [])
     @ (case strokeInstructions g of
          Some st \<Rightarrow> st @ (case strokeStyleInstructions g of Some ss \<Rightarrow> ss | None \<Rightarrow> [])
        | None \<Rightarrow> [])
     @ (oldInstructions g @ activeInstructions g)
     @ (case fillInstructions g of Some f \<Rightarrow> [Fill] | None \<Rightarrow> [])
     @ (case strokeInstructions g of Some st \<Rightarrow> [Stroke] | None \<Rightarrow> [])"


section \<open>Stage: pointer routing (Stage.js) and EaselMouseEvent\<close>

text \<open>
  Handlers are opaque functions, known by identity. A native event carries the page
  coordinates. An \<open>EaselMouseEvent\<close> has the two handler slots \<open>onMouseMove\<close> and
  \<open>onMouseUp\<close> that a press handler may fill (named \<open>evt_...\<close> here, apart from the
  stage's properties of the same name).
\<close>

type_synonym handler = nat

datatype js_error = TypeError | SecurityError | IndexSizeError

record native_event =
  pageX :: real
  pageY :: real

datatype evtarget = TheStage | DisplayObject obj

record mouse_event =
  evtype :: string
  stageX :: "real option"
  stageY :: "real option"
  target :: evtarget
  nativeEvent :: native_event
  evt_onMouseMove :: "handler option"
  evt_onMouseUp :: "handler option"

definition EaselMouseEvent ::
  "string \<Rightarrow> real option \<Rightarrow> real option \<Rightarrow> evtarget \<Rightarrow> native_event \<Rightarrow> mouse_event" where
  "EaselMouseEvent t x y tg e =
     \<lparr> evtype = t, stageX = x, stageY = y, target = tg, nativeEvent = e,
       evt_onMouseMove = None, evt_onMouseUp = None \<rparr>"

text \<open>
  What the stage reads of a display object: \<open>onPress\<close>, when it is a function, with the
  two handlers that function assigns to the press event it is given (\<open>None\<close> for a slot it
  leaves alone), and \<open>onClick\<close>.
\<close>

record display_object =
  onPress :: "(handler option \<times> handler option) option"
  onClick :: "handler option"

text \<open>
  The canvas element: its size, its own offsets, and the offsets of the elements on its
  \<open>offsetParent\<close> chain, nearest first.
\<close>

record canvas_element =
  width :: real
  height :: real
  offsetLeft :: real
  offsetTop :: real
  offsetParents :: "(real \<times> real) list"

text \<open>
  Who was called, with which event, in order: a handler of the stage, a handler of a display
  object (\<open>onPress\<close> or \<open>onClick\<close>, told apart by the event type), or a handler stored in a
  slot of a press event.
\<close>

datatype receiver = StageCallback handler | ObjectCallback obj | EventCallback handler

text \<open>
  \<open>_activeEaselMouseEvent\<close> is the property \<open>_handleMouseDown\<close> and \<open>_handleMouseMove\<close>
  use; \<open>_activeMouseEvent\<close> is the one \<open>_handleMouseUp\<close> reads and sets to \<open>null\<close>. No
  code assigns \<open>_activeMouseEvent\<close> anything else.
\<close>

record stage =
  canvas :: "canvas_element option"
  mouseX :: "real option"
  mouseY :: "real option"
  onMouseMove :: "handler option"
  onMouseUp :: "handler option"
  onMouseDown :: "handler option"
  mouseInBounds :: bool
  activeEaselMouseEvent :: "mouse_event option"
  activeMouseEvent :: "mouse_event option"
  activeMouseTarget :: "obj option"
  mouseOverIntervalID :: "nat option"
  dispatched :: "(receiver \<times> mouse_event) list"

definition Stage_new :: "canvas_element option \<Rightarrow> stage" where
  "Stage_new c =
     \<lparr> canvas = c, mouseX = None, mouseY = None, onMouseMove = None, onMouseUp = None,
       onMouseDown = None, mouseInBounds = False, activeEaselMouseEvent = None,
       activeMouseEvent = None, activeMouseTarget = None, mouseOverIntervalID = None,
       dispatched = [] \<rparr>"

definition dispatch :: "receiver \<Rightarrow> mouse_event \<Rightarrow> stage \<Rightarrow> stage" where
  "dispatch r ev s = s\<lparr>dispatched := dispatched s @ [(r, ev)]\<rparr>"

text \<open>
  \<open>Container._getObjectsUnderPoint\<close> is not among the sources; the handlers take it as a
  parameter, applied to the coordinates and to the remaining arguments as the call site
  writes them.
\<close>

datatype hitarg = ArgNull | ArgBool bool | ArgNum nat

type_synonym hittest = "real option \<Rightarrow> real option \<Rightarrow> hitarg list \<Rightarrow> obj option"

definition mouseMode :: "stage \<Rightarrow> nat" where
  "mouseMode s = (case mouseOverIntervalID s of None \<Rightarrow> 1 | Some n \<Rightarrow> if n = 0 then 1 else 3)"

text \<open>The \<open>do ... while (o)\<close> loop of \<open>_updateMousePosition\<close> over the offset chain.\<close>

fun offset_loop :: "(real \<times> real) list \<Rightarrow> real \<times> real \<Rightarrow> real \<times> real" where
  "offset_loop [] (x, y) = (x, y)"
| "offset_loop ((l, t) # os) (x, y) = offset_loop os (x - l, y - t)"

definition updateMousePosition :: "real \<Rightarrow> real \<Rightarrow> stage \<Rightarrow> js_error + stage" where
  "updateMousePosition px py s =
     (case canvas s of
        None \<Rightarrow> Inl TypeError
      | Some c \<Rightarrow>
          (case offset_loop ((offsetLeft c, offsetTop c) # offsetParents c) (px, py) of
             (x, y) \<Rightarrow>
               let s1 = s\<lparr>mouseInBounds := (x \<ge> 0 \<and> y \<ge> 0 \<and> x < width c \<and> y < height c)\<rparr>
               in Inr (if mouseInBounds s1 then s1\<lparr>mouseX := Some x, mouseY := Some y\<rparr> else s1)))"

definition handleMouseMove :: "native_event \<Rightarrow> stage \<Rightarrow> js_error + stage" where
  "handleMouseMove e s =
     (if canvas s = None then Inr (s\<lparr>mouseX := None, mouseY := None\<rparr>)
      else
        case updateMousePosition (pageX e) (pageY e) s of
          Inl err \<Rightarrow> Inl err
        | Inr s1 \<Rightarrow>
            if \<not> mouseInBounds s \<and> \<not> mouseInBounds s1 then Inr s1
            else
              let evt = EaselMouseEvent ''onMouseMove'' (mouseX s1) (mouseY s1) TheStage e;
                  s2 = (case onMouseMove s1 of
                          Some h \<Rightarrow> dispatch (StageCallback h) evt s1
                        | None \<Rightarrow> s1);
                  s3 = (case activeEaselMouseEvent s2 of
                          Some a \<Rightarrow>
                            (case evt_onMouseMove a of
                               Some h \<Rightarrow> dispatch (EventCallback h) evt s2
                             | None \<Rightarrow> s2)
                        | None \<Rightarrow> s2)
              in Inr s3)"

definition handleMouseUp ::
  "hittest \<Rightarrow> (obj \<Rightarrow> display_object) \<Rightarrow> native_event \<Rightarrow> stage \<Rightarrow> stage" where
  "handleMouseUp getObjectsUnderPoint objects e s =
     (let evt = EaselMouseEvent ''onMouseUp'' (mouseX s) (mouseY s) TheStage e;
          s1 = (case onMouseUp s of
                  Some h \<Rightarrow> dispatch (StageCallback h) evt s
                | None \<Rightarrow> s);
          s2 = (case activeMouseEvent s1 of
                  Some a \<Rightarrow>
                    (case evt_onMouseUp a of
                       Some h \<Rightarrow> dispatch (EventCallback h) evt s1
                     | None \<Rightarrow> s1)
                | None \<Rightarrow> s1);
          s3 = (case activeMouseTarget s2 of
                  None \<Rightarrow> s2
                | Some t \<Rightarrow>
                    (case onClick (objects t) of
                       None \<Rightarrow> s2
                     | Some h \<Rightarrow>
                         if getObjectsUnderPoint (mouseX s2) (mouseY s2)
                              [ArgNull, ArgBool True, ArgNum (mouseMode s2)] = Some t
                         then dispatch (ObjectCallback t)
                                (EaselMouseEvent ''onClick'' (mouseX s2) (mouseY s2)
                                   (DisplayObject t) e) s2
                         else s2))
      in s3\<lparr>activeMouseEvent := None, activeMouseTarget := None\<rparr>)"

definition handleMouseDown ::
  "hittest \<Rightarrow> (obj \<Rightarrow> display_object) \<Rightarrow> native_event \<Rightarrow> stage \<Rightarrow> stage" where
  "handleMouseDown getObjectsUnderPoint objects e s =
     (let s1 = (case onMouseDown s of
                  Some h \<Rightarrow>
                    dispatch (StageCallback h)
                      (EaselMouseEvent ''onMouseDown'' (mouseX s) (mouseY s) TheStage e) s
                | None \<Rightarrow> s)
      in case getObjectsUnderPoint (mouseX s1) (mouseY s1) [ArgNull, ArgNum (mouseMode s1)] of
           None \<Rightarrow> s1
         | Some t \<Rightarrow>
             let s2 = (case onPress (objects t) of
                         None \<Rightarrow> s1
                       | Some (mv, up) \<Rightarrow>
                           let evt = EaselMouseEvent ''onPress'' (mouseX s1) (mouseY s1)
                                       (DisplayObject t) e;
                               s' = dispatch (ObjectCallback t) evt s1;
                               evt' = evt\<lparr>evt_onMouseMove := mv, evt_onMouseUp := up\<rparr>
                           in if mv \<noteq> None \<or> up \<noteq> None
                              then s'\<lparr>activeEaselMouseEvent := Some evt'\<rparr> else s')
             in s2\<lparr>activeMouseTarget := Some t\<rparr>)"

text \<open>The native events the stage subscribes to, and a run of them in delivery order.\<close>

datatype pointer_event = MouseDown native_event | MouseMove native_event | MouseUp native_event

fun deliver ::
  "hittest \<Rightarrow> (obj \<Rightarrow> display_object) \<Rightarrow> pointer_event \<Rightarrow> stage \<Rightarrow> js_error + stage" where
  "deliver hit objects (MouseDown e) s = Inr (handleMouseDown hit objects e s)"
| "deliver hit objects (MouseMove e) s = handleMouseMove e s"
| "deliver hit objects (MouseUp e) s = Inr (handleMouseUp hit objects e s)"

fun deliver_all ::
  "hittest \<Rightarrow> (obj \<Rightarrow> display_object) \<Rightarrow> pointer_event list \<Rightarrow> stage \<Rightarrow> js_error + stage" where
  "deliver_all hit objects [] s = Inr s"
| "deliver_all hit objects (ev # evs) s =
     (case deliver hit objects ev s of
        Inl err \<Rightarrow> Inl err
      | Inr s1 \<Rightarrow> deliver_all hit objects evs s1)"

text \<open>The display objects that were sent a click, in order.\<close>

definition clicked :: "(receiver \<times> mouse_event) list \<Rightarrow> obj list" where
  "clicked tr =
     concat (map (\<lambda>(r, ev). case r of
                     ObjectCallback t \<Rightarrow> if evtype ev = ''onClick'' then [t] else []
                   | _ \<Rightarrow> []) tr)"

text \<open>The handlers that were called out of an event slot, in order.\<close>

definition transient :: "(receiver \<times> mouse_event) list \<Rightarrow> handler list" where
  "transient tr =
     concat (map (\<lambda>(r, ev). case r of EventCallback h \<Rightarrow> [h] | _ \<Rightarrow> []) tr)"

text \<open>
  The canvas-local point as the specification words it: the page coordinates minus the
  cumulative offsets of the canvas and of every ancestor positioning context.
\<close>

definition local_point :: "canvas_element \<Rightarrow> real \<Rightarrow> real \<Rightarrow> real \<times> real" where
  "local_point c px py =
     (px - (offsetLeft c + sum_list (map fst (offsetParents c))),
      py - (offsetTop c + sum_list (map snd (offsetParents c))))"


section \<open>ColorMatrixFilter (src/filters/ColorMatrixFilter.js)\<close>

text \<open>
  The 2D context is the platform's. The filter is given what it calls of it:
  \<open>getImageData\<close>, which returns the pixels or raises, \<open>putImageData\<close>, and the conversion
  of a number to a byte that a store into the pixel array makes. A number that may be \<open>NaN\<close>
  is a \<open>real option\<close>; so is a coordinate that may be \<open>null\<close>.
\<close>

record image_data =
  data :: "nat list"
  data_width :: nat
  data_height :: nat

record 'c canvas_api =
  getImageData :: "'c \<Rightarrow> real \<Rightarrow> real \<Rightarrow> real \<Rightarrow> real \<Rightarrow> js_error + image_data"
  putImageData :: "image_data \<Rightarrow> real option \<Rightarrow> real option \<Rightarrow> 'c \<Rightarrow> 'c"
  toByte :: "real option \<Rightarrow> nat"

definition js_mul :: "real option \<Rightarrow> real option \<Rightarrow> real option" where
  "js_mul a b = (case a of None \<Rightarrow> None | Some x \<Rightarrow> (case b of None \<Rightarrow> None | Some y \<Rightarrow> Some (x * y)))"

definition js_add :: "real option \<Rightarrow> real option \<Rightarrow> real option" where
  "js_add a b = (case a of None \<Rightarrow> None | Some x \<Rightarrow> (case b of None \<Rightarrow> None | Some y \<Rightarrow> Some (x + y)))"

definition byte_at :: "nat list \<Rightarrow> nat \<Rightarrow> real option" where
  "byte_at d i = (if i < length d then Some (real (d ! i)) else None)"

definition coef :: "real list \<Rightarrow> nat \<Rightarrow> real option" where
  "coef mtx k = (if k < length mtx then Some (mtx ! k) else None)"

definition channel ::
  "real list \<Rightarrow> nat \<Rightarrow> real option \<Rightarrow> real option \<Rightarrow> real option \<Rightarrow> real option \<Rightarrow> real option" where
  "channel mtx k r g b a =
     js_add (js_add (js_add (js_add (js_mul r (coef mtx k)) (js_mul g (coef mtx (k + 1))))
                        (js_mul b (coef mtx (k + 2))))
                (js_mul a (coef mtx (k + 3))))
       (coef mtx (k + 4))"

text \<open>
  The pixel loop \<open>for (i = 0; i < l; i += 4)\<close>. A store into the pixel array converts to a
  byte and never changes the array's length.
\<close>

function filter_loop :: "(real option \<Rightarrow> nat) \<Rightarrow> real list \<Rightarrow> nat list \<Rightarrow> nat \<Rightarrow> nat list" where
  "filter_loop tb mtx d i =
     (if i < length d
      then filter_loop tb mtx
             (d[i := tb (channel mtx 0 (byte_at d i) (byte_at d (i + 1)) (byte_at d (i + 2)) (byte_at d (i + 3))),
                i + 1 := tb (channel mtx 5 (byte_at d i) (byte_at d (i + 1)) (byte_at d (i + 2)) (byte_at d (i + 3))),
                i + 2 := tb (channel mtx 10 (byte_at d i) (byte_at d (i + 1)) (byte_at d (i + 2)) (byte_at d (i + 3))),
                i + 3 := tb (channel mtx 15 (byte_at d i) (byte_at d (i + 1)) (byte_at d (i + 2)) (byte_at d (i + 3)))])
             (i + 4)
      else d)"
  by pat_completeness auto
termination
  by (relation "measure (\<lambda>(tb, mtx, d, i). length d - i)") auto

declare filter_loop.simps [simp del]

text \<open>
  \<open>applyFilter\<close>. Contexts are objects in a store, since \<open>targetCtx\<close> defaults to \<open>ctx\<close>.
  \<open>matrix\<close> is \<open>None\<close> when the filter was constructed without one; \<open>mtx[0]\<close> then raises.
  The two tests \<open>if (targetX = null)\<close> and \<open>if (targetY = null)\<close> are assignments: they
  store \<open>null\<close> and take the false branch, whatever was passed.
\<close>

definition applyFilter ::
  "'c canvas_api \<Rightarrow> real list option \<Rightarrow> nat \<Rightarrow> real \<Rightarrow> real \<Rightarrow> real \<Rightarrow> real \<Rightarrow>
     nat option \<Rightarrow> real option \<Rightarrow> real option \<Rightarrow> (nat \<Rightarrow> 'c) \<Rightarrow> js_error + bool \<times> (nat \<Rightarrow> 'c)" where
  "applyFilter api matrix ctx x y w h opt_targetCtx opt_targetX opt_targetY store =
     (let targetCtx = (case opt_targetCtx of None \<Rightarrow> ctx | Some t \<Rightarrow> t);
          targetX = (None :: real option);
          targetY = (None :: real option)
      in case getImageData api (store ctx) x y w h of
           Inl e \<Rightarrow> Inr (False, store)
         | Inr imageData \<Rightarrow>
             (case matrix of
                None \<Rightarrow> Inl TypeError
              | Some mtx \<Rightarrow>
                  let d = filter_loop (toByte api) mtx (data imageData) 0;
                      imageData' = imageData\<lparr>data := d\<rparr>
                  in Inr (True,
                          store(targetCtx := putImageData api imageData' targetX targetY (store targetCtx)))))"

text \<open>
  The colour transform of one pixel as the matrix defines it, and of a whole pixel array,
  four bytes at a time.
\<close>

fun transform_pixels :: "(real option \<Rightarrow> nat) \<Rightarrow> real list \<Rightarrow> nat list \<Rightarrow> nat list" where
  "transform_pixels tb mtx (r # g # b # a # rest) =
     tb (channel mtx 0 (Some (real r)) (Some (real g)) (Some (real b)) (Some (real a)))
     # tb (channel mtx 5 (Some (real r)) (Some (real g)) (Some (real b)) (Some (real a)))
     # tb (channel mtx 10 (Some (real r)) (Some (real g)) (Some (real b)) (Some (real a)))
     # tb (channel mtx 15 (Some (real r)) (Some (real g)) (Some (real b)) (Some (real a)))
     # transform_pixels tb mtx rest"
| "transform_pixels tb mtx rest = rest"

section \<open>Runs of the scheduler and the words of the specification\<close>

text \<open>
  What happens to the scheduler over time: the platform fires the frame callback at some
  clock value, or the application calls the registration interface.
\<close>

datatype sched_event = Fire int | Call action

fun step :: "(obj \<Rightarrow> action list option) \<Rightarrow> sched_event \<Rightarrow> ticker \<Rightarrow> ticker" where
  "step tick_of (Fire now) s = tick tick_of now s"
| "step tick_of (Call a) s = exec_action a s"

fun steps :: "(obj \<Rightarrow> action list option) \<Rightarrow> sched_event list \<Rightarrow> ticker \<Rightarrow> ticker" where
  "steps tick_of [] s = s"
| "steps tick_of (ev # evs) s = steps tick_of evs (step tick_of ev s)"

text \<open>
  The number of fires in a run, and the number of those at which the scheduler was paused
  when the callback started.
\<close>

fun fires :: "(obj \<Rightarrow> action list option) \<Rightarrow> sched_event list \<Rightarrow> ticker \<Rightarrow> nat" where
  "fires tick_of [] s = 0"
| "fires tick_of (Fire now # evs) s = Suc (fires tick_of evs (tick tick_of now s))"
| "fires tick_of (Call a # evs) s = fires tick_of evs (exec_action a s)"

fun paused_fires :: "(obj \<Rightarrow> action list option) \<Rightarrow> sched_event list \<Rightarrow> ticker \<Rightarrow> nat" where
  "paused_fires tick_of [] s = 0"
| "paused_fires tick_of (Fire now # evs) s =
     (if getPaused s then 1 else 0) + paused_fires tick_of evs (tick tick_of now s)"
| "paused_fires tick_of (Call a # evs) s = paused_fires tick_of evs (exec_action a s)"

text \<open>
  The intervals between consecutive recorded timestamps, newest first, and their mean over
  the last \<open>n\<close> of them: the specification's average interval.
\<close>

definition intervals :: "int list \<Rightarrow> int list" where
  "intervals ts = map2 (-) ts (tl ts)"

definition mean_interval :: "nat \<Rightarrow> int list \<Rightarrow> rat" where
  "mean_interval n ts = of_int (sum_list (take n (intervals ts))) / of_nat n"

text \<open>
  Two listeners: object 1, whose \<open>tick\<close> removes the object itself from the scheduler, and
  object 2, whose \<open>tick\<close> leaves the scheduler alone. Object 1 is registered first and not
  pauseable, object 2 second and pauseable; then the scheduler is paused.
\<close>

definition one_shot :: "obj \<Rightarrow> action list option" where
  "one_shot ob =
     (if ob = 1 then Some [RemoveListener (Some 1)] else if ob = 2 then Some [] else None)"

definition paused_pair :: ticker where
  "paused_pair =
     setPaused True
       (addListener (Some 2) (Some True) (addListener (Some 1) (Some False) Ticker_init))"

section \<open>Runs of a buffer\<close>


definition two_fills :: graphics where
  "two_fills =
     invoke_all [CallBeginFill (Some ''red''), CallLineTo 1 1,
                 CallBeginFill (Some ''blue''), CallLineTo 2 2] Graphics_new"

text \<open>
  A drawn sequence \<open>m\<close> is kept by a buffer when both the committed list and the merged
  list start with it.
\<close>

definition keeps :: "command list \<Rightarrow> graphics \<Rightarrow> bool" where
  "keeps m g = (prefix m (oldInstructions g) \<and> prefix m (instructions g))"

section \<open>Concrete stages, display lists and contexts\<close>

text \<open>
  A canvas of 100 by 50 at offset (10, 20) inside one positioned ancestor at (5, 5); a
  display list whose object 1 has a press handler that stores the move handler 7 and the
  release handler 8 in the press event; a display list whose objects all have the click
  handler 9; hit tests that always find object 1, or object 2; a native event at a point.
\<close>

definition square_canvas :: canvas_element where
  "square_canvas = \<lparr> width = 100, height = 50, offsetLeft = 10, offsetTop = 20,
     offsetParents = [(5, 5)] \<rparr>"

definition draggable :: "obj \<Rightarrow> display_object" where
  "draggable ob = (if ob = 1 then \<lparr> onPress = Some (Some 7, Some 8), onClick = None \<rparr>
                   else \<lparr> onPress = None, onClick = None \<rparr>)"

definition clickable :: "obj \<Rightarrow> display_object" where
  "clickable ob = \<lparr> onPress = None, onClick = Some 9 \<rparr>"

definition hit_second :: hittest where
  "hit_second x y args = Some 2"

definition hit_first :: hittest where
  "hit_first x y args = Some 1"

definition at_point :: "real \<Rightarrow> real \<Rightarrow> native_event" where
  "at_point x y = \<lparr> pageX = x, pageY = y \<rparr>"

text \<open>
  A platform for the filter: a context is a taint flag and its pixels, reading a tainted
  context raises the security error, writing replaces the pixels. The matrix exchanges the
  red and the blue channel. Context 0 is tainted, the others are not.
\<close>

definition swap_red_blue :: "real list" where
  "swap_red_blue = [0, 0, 1, 0, 0,  0, 1, 0, 0, 0,  1, 0, 0, 0, 0,  0, 0, 0, 1, 0]"

definition sample_api :: "(bool \<times> nat list) canvas_api" where
  "sample_api =
     \<lparr> getImageData = (\<lambda>c x y w h.
          if fst c then Inl SecurityError
          else Inr \<lparr> data = snd c, data_width = 1, data_height = 1 \<rparr>),
       putImageData = (\<lambda>img x y c. (fst c, data img)),
       toByte = (\<lambda>v. case v of None \<Rightarrow> 0 | Some q \<Rightarrow> nat \<lfloor>q\<rfloor>) \<rparr>"

definition sample_store :: "nat \<Rightarrow> bool \<times> nat list" where
  "sample_store n = (if n = 0 then (True, [10, 20, 30, 255]) else (False, [10, 20, 30, 255]))"

section \<open>Further words of the specification\<close>

text \<open>
  What one registration contributes to a fire: the listener is ticked with the elapsed time
  unless it is \<open>null\<close>, is pauseable while the scheduler is paused, or has no \<open>tick\<close>.
\<close>

definition ticked ::
  "(obj \<Rightarrow> action list option) \<Rightarrow> bool \<Rightarrow> int \<Rightarrow> obj option \<times> bool \<Rightarrow> (obj \<times> int) option" where
  "ticked tick_of pz elapsedTime lp =
     (case fst lp of
        None \<Rightarrow> None
      | Some ob \<Rightarrow> if (pz \<and> snd lp) \<or> tick_of ob = None then None
                  else Some (ob, elapsedTime))"

text \<open>The handlers that were called out of an event slot at a release, in order.\<close>

definition release_calls :: "(receiver \<times> mouse_event) list \<Rightarrow> handler list" where
  "release_calls tr =
     concat (map (\<lambda>(r, ev). case r of
                     EventCallback h \<Rightarrow> if evtype ev = ''onMouseUp'' then [h] else []
                   | _ \<Rightarrow> []) tr)"

section \<open>Styles and geometry of a buffer\<close>










section \<open>Properties of the scheduler\<close>

lemma exec_action_counters:
  "ticks (exec_action a s) = ticks s" "pausedTickers (exec_action a s) = pausedTickers s"
  by (cases a; simp add: addListener_def removeListener_def removeAllListeners_def setPaused_def
        requestAnimFrame_def Let_def split: option.splits)+

lemma run_actions_counters:
  "ticks (run_actions as s) = ticks s" "pausedTickers (run_actions as s) = pausedTickers s"
  by (induction as arbitrary: s; simp add: exec_action_counters)+

lemma tick_loop_ticks: "ticks (tick_loop tick_of pz el pa ls i s) = ticks s"
  by (induction ls arbitrary: i s) (auto simp: run_actions_counters Let_def split: option.splits)

lemma tick_loop_pausedTickers:
  "pausedTickers (tick_loop tick_of pz el pa ls i s) = pausedTickers s"
  by (induction ls arbitrary: i s) (auto simp: run_actions_counters Let_def split: option.splits)

lemma tick_ticks: "ticks (tick tick_of now s) = ticks s + 1"
  by (simp add: tick_def Let_def tick_loop_ticks tick_loop_pausedTickers requestAnimFrame_def)

lemma tick_pausedTickers:
  "pausedTickers (tick tick_of now s) = pausedTickers s + (if paused s then 1 else 0)"
  by (simp add: tick_def Let_def tick_loop_ticks tick_loop_pausedTickers requestAnimFrame_def)

lemma ticks_steps: "ticks (steps tick_of evs s) = ticks s + int (fires tick_of evs s)"
proof (induction evs arbitrary: s)
  case Nil
  show ?case by simp
next
  case (Cons ev evs)
  show ?case by (cases ev) (simp_all add: Cons.IH tick_ticks exec_action_counters)
qed

lemma pausedTickers_steps:
  "pausedTickers (steps tick_of evs s) = pausedTickers s + int (paused_fires tick_of evs s)"
proof (induction evs arbitrary: s)
  case Nil
  show ?case by simp
next
  case (Cons ev evs)
  show ?case
    by (cases ev) (simp_all add: Cons.IH tick_pausedTickers exec_action_counters getPaused_def)
qed

lemma getTicks_steps:
  "getTicks False (steps tick_of evs Ticker_init) = int (fires tick_of evs Ticker_init)"
  "getTicks True (steps tick_of evs Ticker_init)
     = int (fires tick_of evs Ticker_init) - int (paused_fires tick_of evs Ticker_init)"
  by (simp_all add: getTicks_def ticks_steps pausedTickers_steps Ticker_init_def)

text \<open>
  C1. The claim: over any run of fires, \<open>getTicks(true)\<close> is the number of all fires,
  those while paused included, and \<open>getTicks(false)\<close> the number without them; the
  documentation of \<open>getTicks\<close> says the same. The code subtracts the paused fires when the
  argument is true: after one fire of a paused scheduler \<open>getTicks(true)\<close> is 0 and
  \<open>getTicks(false)\<close> is 1.
\<close>

theorem getTicks_paused_fire:
  "getTicks True (tick (\<lambda>ob. None) 16 (setPaused True Ticker_init)) = 0
   \<and> getTicks False (tick (\<lambda>ob. None) 16 (setPaused True Ticker_init)) = 1"
  by (simp add: getTicks_def tick_ticks tick_pausedTickers setPaused_def Ticker_init_def)

text \<open>
  C3. The claim: \<open>addListener(o)\<close> with the second argument omitted leaves \<open>o\<close> registered
  once, last, with the pauseable flag true (the documented default). The code stores
  \<open>opt_pauseable ? true : false\<close>, which is false for an omitted argument: registration
  and position are as claimed, the flag is not.
\<close>

theorem addListener_default_flag:
  "listeners (addListener (Some 1) None Ticker_init) = [Some 1]
   \<and> pauseableArr (addListener (Some 1) None Ticker_init) = [False]"
  by (simp add: addListener_def removeListener_def Ticker_init_def requestAnimFrame_def
        pauseableArr_def js_put_def Let_def)

text \<open>
  C7. The claim: at a fire of a paused scheduler a pauseable listener is not ticked and a
  listener that is not pauseable is ticked with the elapsed time. \<open>_tick\<close> iterates a copy
  of the listener list but reads the flags from the live \<open>_pauseable\<close> array: when the
  first listener removes itself in its callback the flags shift, the flag read for the second
  listener is \<open>undefined\<close>, and the pauseable object 2 is ticked although the scheduler is
  paused.
\<close>

theorem tick_paused_ticks_pauseable:
  "listeners paused_pair = [Some 1, Some 2]
   \<and> pauseableArr paused_pair = [False, True]
   \<and> paused paused_pair
   \<and> calls (tick one_shot 1000 paused_pair) = [(1, 1000), (2, 1000)]"
  by (simp add: one_shot_def paused_pair_def tick_def Ticker_init_def addListener_def
        removeListener_def setPaused_def requestAnimFrame_def js_put_def js_get_def
        pauseableArr_def getTime_def splice1_def Let_def)

lemma intervals_Cons2: "intervals (a # b # ts) = (a - b) # intervals (b # ts)"
  by (simp add: intervals_def)

lemma sum_take_intervals:
  "n < length ts \<Longrightarrow> sum_list (take n (intervals ts)) = ts ! 0 - ts ! n"
proof (induction ts arbitrary: n)
  case Nil
  then show ?case by simp
next
  case (Cons a ts)
  show ?case
  proof (cases n)
    case 0
    then show ?thesis by simp
  next
    case (Suc m)
    with Cons.prems obtain b us where ts: "ts = b # us" by (cases ts) auto
    from Suc Cons.prems have "m < length ts" by simp
    from Cons.IH [OF this] have "sum_list (take m (intervals ts)) = ts ! 0 - ts ! m" .
    with Suc ts show ?thesis by (simp add: intervals_Cons2)
  qed
qed

text \<open>
  C8. \<open>getMeasuredFPS\<close> returns -1 while fewer than two timestamps are recorded. With at
  least two, and a requested count that is omitted (then 5) or positive, it returns 1000
  over the mean of the last \<open>N\<close> intervals, \<open>N\<close> the smaller of the requested count and the
  number of recorded intervals; the quotient is exact here, and \<open>Infinity\<close> when the mean
  interval is zero.
\<close>

theorem getMeasuredFPS_mean:
  assumes "case r of None \<Rightarrow> True | Some n \<Rightarrow> 0 < n"
  shows "getMeasuredFPS r s =
     (if length (times s) < 2 then Num (- 1)
      else let N = min (length (times s) - 1) (case r of None \<Rightarrow> 5 | Some n \<Rightarrow> nat n);
               m = mean_interval N (times s)
           in if m = 0 then Infinity else Num (1000 / m))"
proof (cases "length (times s) < 2")
  case True
  then show ?thesis by (simp add: getMeasuredFPS_def)
next
  case False
  define t1 :: int where "t1 = (case r of None \<Rightarrow> 5 | Some n \<Rightarrow> if n = 0 then 5 else n)"
  define N where "N = min (length (times s) - 1) (case r of None \<Rightarrow> 5 | Some n \<Rightarrow> nat n)"
  have t1pos: "0 < t1" using assms by (auto simp: t1_def split: option.splits)
  have t1nat: "nat t1 = (case r of None \<Rightarrow> 5 | Some n \<Rightarrow> nat n)"
    using assms by (auto simp: t1_def split: option.splits)
  have t2: "min (int (length (times s)) - 1) t1 = int N"
    using False t1pos t1nat unfolding N_def by (auto simp: min_def split: option.splits)
  have Nlt: "N < length (times s)" using False unfolding N_def by auto
  have m: "mean_interval N (times s) = of_int (times s ! 0 - times s ! N) / of_nat N"
    by (simp add: mean_interval_def sum_take_intervals [OF Nlt])
  show ?thesis
    using False t2 m unfolding getMeasuredFPS_def t1_def [symmetric] N_def [symmetric]
    by (simp add: Let_def)
qed

theorem getMeasuredFPS_mean_witness:
  "(case Some (2::int) of None \<Rightarrow> True | Some n \<Rightarrow> 0 < n)
   \<and> getMeasuredFPS (Some 2) (Ticker_init\<lparr>times := [100, 80, 60]\<rparr>) = Num 50
   \<and> getMeasuredFPS None (Ticker_init\<lparr>times := [100]\<rparr>) = Num (- 1)"
  using getMeasuredFPS_mean [of "Some 2" "Ticker_init\<lparr>times := [100, 80, 60]\<rparr>"]
    getMeasuredFPS_mean [of None "Ticker_init\<lparr>times := [100]\<rparr>"]
  by (simp add: mean_interval_def intervals_def)

section \<open>Properties of the command buffer\<close>

lemmas geometry_defs =
  moveTo_def lineTo_def arcTo_def arc_def quadraticCurveTo_def bezierCurveTo_def rect_def
  closePath_def drawRoundRect_def drawRoundRectComplex_def drawCircle_def drawEllipse_def
  drawPolyStar_def push_def touch_def

lemmas style_defs =
  beginFill_def beginLinearGradientFill_def beginRadialGradientFill_def beginBitmapFill_def
  endFill_def setStrokeStyle_def beginStroke_def beginLinearGradientStroke_def
  beginRadialGradientStroke_def beginBitmapStroke_def endStroke_def

lemma two_fills_eq:
  "two_fills = \<lparr> instructions = [BeginPath, SetProp ''fillStyle'' (Str ''red''), LineTo 1 1, Fill],
     oldInstructions = [BeginPath, SetProp ''fillStyle'' (Str ''red''), LineTo 1 1, Fill],
     activeInstructions = [LineTo 2 2],
     strokeStyleInstructions = None, strokeInstructions = None,
     fillInstructions = Some [SetProp ''fillStyle'' (Str ''blue'')],
     active = True, dirty = True \<rparr>"
  by (simp add: two_fills_def Graphics_new_def geometry_defs style_defs cut_def newPath_def
        updateInstructions_def Let_def)

text \<open>
  C4. The claim puts the begin-path and style instructions first and the committed list,
  concatenated with the active list, after them. The code starts the merged list with the
  committed list, which already holds the earlier subpaths in linearised form, each with its
  own begin-path, styles and fill or stroke; only the active list follows the new styles.
  With two fills the two orders differ.
\<close>

theorem draw_order_counterexample:
  "dirty two_fills
   \<and> snd (draw two_fills) =
       [BeginPath, SetProp ''fillStyle'' (Str ''red''), LineTo 1 1, Fill,
        BeginPath, SetProp ''fillStyle'' (Str ''blue''), LineTo 2 2, Fill]
   \<and> snd (draw two_fills) \<noteq> spec_merged two_fills"
  by (simp add: two_fills_eq draw_def updateInstructions_def spec_merged_def Let_def)

text \<open>
  C4, amended. For a dirty buffer \<open>draw\<close> rebuilds the merged list as: the committed
  list, a begin-path instruction, the fill-style instructions if a fill is set, the stroke
  instructions followed by the stroke-style instructions if a stroke is set, the active
  list, the fill execution if a fill is set, the stroke execution if a stroke is set; it
  stores that list and replays it. For a buffer that is not dirty \<open>draw\<close> replays the
  stored merged list and changes nothing.
\<close>

theorem draw_rebuilds:
  "(dirty g \<longrightarrow>
      snd (draw g) =
        oldInstructions g @ [BeginPath]
        @ (case fillInstructions g of Some f \<Rightarrow> f | None \<Rightarrow> [])
        @ (case strokeInstructions g of
             Some st \<Rightarrow> st @ (case strokeStyleInstructions g of Some ss \<Rightarrow> ss | None \<Rightarrow> [])
           | None \<Rightarrow> [])
        @ activeInstructions g
        @ (case fillInstructions g of Some f \<Rightarrow> [Fill] | None \<Rightarrow> [])
        @ (case strokeInstructions g of Some st \<Rightarrow> [Stroke] | None \<Rightarrow> [])
      \<and> fst (draw g) = g\<lparr>instructions := snd (draw g)\<rparr>)
   \<and> (\<not> dirty g \<longrightarrow> draw g = (g, instructions g))"
  by (simp add: draw_def updateInstructions_def Let_def)

theorem draw_rebuilds_witness:
  "dirty two_fills
   \<and> snd (draw two_fills) =
       [BeginPath, SetProp ''fillStyle'' (Str ''red''), LineTo 1 1, Fill,
        BeginPath, SetProp ''fillStyle'' (Str ''blue''), LineTo 2 2, Fill]
   \<and> \<not> dirty (beginFill None two_fills)
   \<and> draw (beginFill None two_fills)
       = (beginFill None two_fills, instructions (beginFill None two_fills))"
  using draw_rebuilds [of two_fills] draw_rebuilds [of "beginFill None two_fills"]
  by (simp add: two_fills_eq beginFill_def cut_def newPath_def updateInstructions_def Let_def)




lemma cut_keeps: "keeps m g \<Longrightarrow> keeps m (cut g)"
  by (auto simp: keeps_def cut_def newPath_def updateInstructions_def Let_def)

















section \<open>Properties of the stage\<close>

lemma offset_loop_sum:
  "offset_loop os (x, y) = (x - sum_list (map fst os), y - sum_list (map snd os))"
  by (induction os arbitrary: x y) (auto simp: algebra_simps)

text \<open>
  C10. \<open>_updateMousePosition\<close> on a stage with a canvas: the canvas-local point is the
  page point minus the offsets of the canvas and all its offset parents. When that point is
  outside \<open>[0, width) \<times> [0, height)\<close> only \<open>mouseInBounds\<close> changes, to false, and
  \<open>mouseX\<close>, \<open>mouseY\<close> keep their values; when it is inside, the two are overwritten
  with the point and \<open>mouseInBounds\<close> is true.
\<close>

theorem updateMousePosition_bounds:
  assumes "canvas s = Some c"
  shows "updateMousePosition px py s =
     Inr (case local_point c px py of
            (x, y) \<Rightarrow>
              if 0 \<le> x \<and> 0 \<le> y \<and> x < width c \<and> y < height c
              then s\<lparr>mouseInBounds := True, mouseX := Some x, mouseY := Some y\<rparr>
              else s\<lparr>mouseInBounds := False\<rparr>)"
  using assms
  by (simp add: updateMousePosition_def local_point_def offset_loop_sum Let_def algebra_simps)

theorem updateMousePosition_bounds_witness:
  "canvas ((Stage_new (Some square_canvas))\<lparr>mouseX := Some 3, mouseY := Some 4, mouseInBounds := True\<rparr>)
     = Some square_canvas
   \<and> updateMousePosition 500 30
       ((Stage_new (Some square_canvas))\<lparr>mouseX := Some 3, mouseY := Some 4, mouseInBounds := True\<rparr>)
     = Inr ((Stage_new (Some square_canvas))\<lparr>mouseX := Some 3, mouseY := Some 4, mouseInBounds := False\<rparr>)
   \<and> updateMousePosition 25 30
       ((Stage_new (Some square_canvas))\<lparr>mouseX := Some 3, mouseY := Some 4, mouseInBounds := True\<rparr>)
     = Inr ((Stage_new (Some square_canvas))\<lparr>mouseX := Some 10, mouseY := Some 5, mouseInBounds := True\<rparr>)"
  using updateMousePosition_bounds
    [of "(Stage_new (Some square_canvas))\<lparr>mouseX := Some 3, mouseY := Some 4, mouseInBounds := True\<rparr>"
        square_canvas 500 30]
    updateMousePosition_bounds
    [of "(Stage_new (Some square_canvas))\<lparr>mouseX := Some 3, mouseY := Some 4, mouseInBounds := True\<rparr>"
        square_canvas 25 30]
  by (simp add: Stage_new_def square_canvas_def local_point_def)

lemmas stage_defs =
  handleMouseDown_def handleMouseUp_def handleMouseMove_def updateMousePosition_def
  dispatch_def EaselMouseEvent_def mouseMode_def Let_def

text \<open>
  C2. The claim: at the native release the release handler stored in the press event is
  called, then both stored handlers are discarded and never called in a later cycle.
  \<open>_handleMouseDown\<close> stores the press event in \<open>_activeEaselMouseEvent\<close>, but
  \<open>_handleMouseUp\<close> reads and clears \<open>_activeMouseEvent\<close>: after move, press and
  release over object 1 no stored handler has been called, the press event with both
  handlers is still stored, and the next move, after the release, calls the move handler 7.
\<close>

theorem release_handler_dropped:
  "(case deliver_all hit_first draggable
           [MouseMove (at_point 25 30), MouseDown (at_point 25 30), MouseUp (at_point 25 30)]
           (Stage_new (Some square_canvas)) of
      Inl err \<Rightarrow> False
    | Inr s \<Rightarrow> transient (dispatched s) = []
               \<and> map_option evt_onMouseUp (activeEaselMouseEvent s) = Some (Some 8)
               \<and> map_option evt_onMouseMove (activeEaselMouseEvent s) = Some (Some 7))
   \<and> (case deliver_all hit_first draggable
           [MouseMove (at_point 25 30), MouseDown (at_point 25 30), MouseUp (at_point 25 30),
            MouseMove (at_point 26 30)]
           (Stage_new (Some square_canvas)) of
      Inl err \<Rightarrow> False
    | Inr s \<Rightarrow> transient (dispatched s) = [7])"
  by (simp add: stage_defs Stage_new_def square_canvas_def draggable_def hit_first_def
        at_point_def transient_def)

lemma clicked_append: "clicked (xs @ ys) = clicked xs @ clicked ys"
  by (simp add: clicked_def)

lemma handleMouseDown_target:
  "hitD (mouseX s) (mouseY s) [ArgNull, ArgNum (mouseMode s)] = Some X \<Longrightarrow>
     activeMouseTarget (handleMouseDown hitD objects e s) = Some X"
  by (auto simp: stage_defs split: option.splits)

lemma handleMouseDown_clicked:
  "clicked (dispatched (handleMouseDown hitD objects e s)) = clicked (dispatched s)"
  by (auto simp: stage_defs clicked_def split: option.splits)

lemma handleMouseMove_keeps:
  "handleMouseMove e s = Inr s' \<Longrightarrow>
     activeMouseTarget s' = activeMouseTarget s
     \<and> clicked (dispatched s') = clicked (dispatched s)"
  by (auto simp: stage_defs clicked_def split: option.splits if_splits prod.splits)

lemma moves_keep:
  "deliver_all hit objects (map MouseMove moves) s = Inr s' \<Longrightarrow>
     activeMouseTarget s' = activeMouseTarget s
     \<and> clicked (dispatched s') = clicked (dispatched s)"
proof (induction moves arbitrary: s)
  case Nil
  then show ?case by simp
next
  case (Cons m moves)
  from Cons.prems obtain s1 where m: "handleMouseMove m s = Inr s1"
    and rest: "deliver_all hit objects (map MouseMove moves) s1 = Inr s'"
    by (auto split: sum.splits)
  from handleMouseMove_keeps [OF m] Cons.IH [OF rest] show ?case by simp
qed

lemma handleMouseUp_clicked:
  "activeMouseTarget s = Some X \<Longrightarrow>
     clicked (dispatched (handleMouseUp hitU objects e s)) =
       clicked (dispatched s)
       @ (if hitU (mouseX s) (mouseY s) [ArgNull, ArgBool True, ArgNum (mouseMode s)] = Some X
             \<and> onClick (objects X) \<noteq> None
          then [X] else [])"
  by (auto simp: stage_defs clicked_def split: option.splits)

text \<open>
  C5. A press whose hit test finds \<open>X\<close>, any pointer moves, then a release: over the
  whole cycle the clicks sent are exactly one click to \<open>X\<close> when the hit test at release
  finds \<open>X\<close> again and \<open>X\<close> has a click handler, and none otherwise; in particular none to
  \<open>X\<close> or to \<open>Y\<close> when the release finds another object \<open>Y\<close>.
\<close>

theorem click_needs_same_target:
  assumes "hitD (mouseX s) (mouseY s) [ArgNull, ArgNum (mouseMode s)] = Some X"
    and "deliver_all hitM objects (map MouseMove moves) (handleMouseDown hitD objects e1 s) = Inr s'"
  shows "clicked (dispatched (handleMouseUp hitU objects e2 s')) =
           clicked (dispatched s)
           @ (if hitU (mouseX s') (mouseY s') [ArgNull, ArgBool True, ArgNum (mouseMode s')] = Some X
                 \<and> onClick (objects X) \<noteq> None
              then [X] else [])"
proof -
  have "activeMouseTarget (handleMouseDown hitD objects e1 s) = Some X"
    using assms(1) by (rule handleMouseDown_target [of hitD s X objects e1])
  with moves_keep [OF assms(2)]
  have t: "activeMouseTarget s' = Some X"
    and c: "clicked (dispatched s') = clicked (dispatched s)"
    by (simp_all add: handleMouseDown_clicked)
  from handleMouseUp_clicked [of s' X hitU objects e2, OF t] c show ?thesis by simp
qed

theorem click_needs_same_target_witness:
  "hit_first (mouseX (Stage_new (Some square_canvas))) (mouseY (Stage_new (Some square_canvas)))
       [ArgNull, ArgNum (mouseMode (Stage_new (Some square_canvas)))] = Some 1
   \<and> (case deliver_all hit_first clickable (map MouseMove [at_point 26 30])
              (handleMouseDown hit_first clickable (at_point 25 30) (Stage_new (Some square_canvas))) of
         Inl err \<Rightarrow> False
       | Inr s' \<Rightarrow>
           clicked (dispatched (handleMouseUp hit_first clickable (at_point 26 30) s')) = [1]
           \<and> clicked (dispatched (handleMouseUp hit_second clickable (at_point 26 30) s')) = [])"
proof -
  let ?s = "Stage_new (Some square_canvas)"
  have h: "hit_first (mouseX ?s) (mouseY ?s) [ArgNull, ArgNum (mouseMode ?s)] = Some 1"
    by (simp add: hit_first_def)
  have "\<exists>s'. deliver_all hit_first clickable (map MouseMove [at_point 26 30])
              (handleMouseDown hit_first clickable (at_point 25 30) ?s) = Inr s'"
    by (simp add: stage_defs Stage_new_def square_canvas_def clickable_def hit_first_def
          at_point_def)
  then obtain s' where d: "deliver_all hit_first clickable (map MouseMove [at_point 26 30])
              (handleMouseDown hit_first clickable (at_point 25 30) ?s) = Inr s'" ..
  have e: "clicked (dispatched ?s) = []" by (simp add: Stage_new_def clicked_def)
  from click_needs_same_target [OF h d, of hit_first "at_point 26 30"]
  have 1: "clicked (dispatched (handleMouseUp hit_first clickable (at_point 26 30) s')) = [1]"
    by (simp add: e hit_first_def clickable_def)
  from click_needs_same_target [OF h d, of hit_second "at_point 26 30"]
  have 2: "clicked (dispatched (handleMouseUp hit_second clickable (at_point 26 30) s')) = []"
    by (simp add: e hit_second_def)
  from h d 1 2 show ?thesis by simp
qed

section \<open>Properties of the colour matrix filter\<close>

lemma byte_at_append: "byte_at (pre @ d) (length pre + k) = byte_at d k"
  by (simp add: byte_at_def nth_append)

lemma update4:
  "(pre @ r # g # b # a # rest)
      [length pre := v0, length pre + 1 := v1, length pre + 2 := v2, length pre + 3 := v3]
   = pre @ v0 # v1 # v2 # v3 # rest"
  by (simp add: list_update_append)

lemma filter_loop_end: "filter_loop tb mtx pre (length pre) = pre"
  using filter_loop.simps [of tb mtx pre "length pre"] by simp

lemma filter_loop_transform:
  "length d mod 4 = 0 \<Longrightarrow>
     filter_loop tb mtx (pre @ d) (length pre) = pre @ transform_pixels tb mtx d"
proof (induction tb mtx d arbitrary: pre rule: transform_pixels.induct)
  case (1 tb mtx r g b a rest)
  let ?v0 = "tb (channel mtx 0 (Some (real r)) (Some (real g)) (Some (real b)) (Some (real a)))"
  let ?v1 = "tb (channel mtx 5 (Some (real r)) (Some (real g)) (Some (real b)) (Some (real a)))"
  let ?v2 = "tb (channel mtx 10 (Some (real r)) (Some (real g)) (Some (real b)) (Some (real a)))"
  let ?v3 = "tb (channel mtx 15 (Some (real r)) (Some (real g)) (Some (real b)) (Some (real a)))"
  from "1.prems" have m: "length rest mod 4 = 0" by simp
  have b: "byte_at (pre @ r # g # b # a # rest) (length pre) = Some (real r)"
    "byte_at (pre @ r # g # b # a # rest) (length pre + 1) = Some (real g)"
    "byte_at (pre @ r # g # b # a # rest) (length pre + 2) = Some (real b)"
    "byte_at (pre @ r # g # b # a # rest) (length pre + 3) = Some (real a)"
    using byte_at_append [of pre "r # g # b # a # rest" 0]
      byte_at_append [of pre "r # g # b # a # rest" 1]
      byte_at_append [of pre "r # g # b # a # rest" 2]
      byte_at_append [of pre "r # g # b # a # rest" 3]
    by (simp_all add: byte_at_def)
  have lt: "length pre < length (pre @ r # g # b # a # rest)" by simp
  from filter_loop.simps [of tb mtx "pre @ r # g # b # a # rest" "length pre"]
  have "filter_loop tb mtx (pre @ r # g # b # a # rest) (length pre)
        = filter_loop tb mtx (pre @ ?v0 # ?v1 # ?v2 # ?v3 # rest) (length pre + 4)"
    by (simp only: lt if_True b update4)
  also have "\<dots> = filter_loop tb mtx ((pre @ [?v0, ?v1, ?v2, ?v3]) @ rest)
                      (length (pre @ [?v0, ?v1, ?v2, ?v3]))"
  proof -
    have "length pre + 4 = length (pre @ [?v0, ?v1, ?v2, ?v3])" by simp
    then show ?thesis by (simp only: append_assoc append_Cons append_Nil)
  qed
  also have "\<dots> = (pre @ [?v0, ?v1, ?v2, ?v3]) @ transform_pixels tb mtx rest"
    using m by (rule "1.IH")
  finally show ?case by simp
qed (simp_all add: filter_loop_end)

lemma filter_loop_pixels:
  "length d mod 4 = 0 \<Longrightarrow> filter_loop tb mtx d 0 = transform_pixels tb mtx d"
  using filter_loop_transform [of d tb mtx "[]"] by simp

text \<open>
  C9. \<open>applyFilter\<close>: when \<open>getImageData\<close> raises, whatever the error, the method returns
  false, raises nothing, and leaves every context as it was. When it returns pixels (four
  bytes each) and the filter has a matrix, the method returns true and has written to the
  target context the pixels transformed by the matrix.
\<close>

theorem applyFilter_catches:
  "(\<forall>e. getImageData api (store ctx) x y w h = Inl e \<longrightarrow>
        applyFilter api matrix ctx x y w h tc tx ty store = Inr (False, store))
   \<and> (\<forall>img mtx. getImageData api (store ctx) x y w h = Inr img \<longrightarrow> matrix = Some mtx \<longrightarrow>
          length (data img) mod 4 = 0 \<longrightarrow>
          applyFilter api matrix ctx x y w h tc tx ty store =
            Inr (True,
                 store((case tc of None \<Rightarrow> ctx | Some t \<Rightarrow> t) :=
                    putImageData api (img\<lparr>data := transform_pixels (toByte api) mtx (data img)\<rparr>)
                      None None (store (case tc of None \<Rightarrow> ctx | Some t \<Rightarrow> t)))))"
  by (simp add: applyFilter_def Let_def filter_loop_pixels)

theorem applyFilter_catches_witness:
  "getImageData sample_api (sample_store 0) 0 0 1 1 = Inl SecurityError
   \<and> applyFilter sample_api (Some swap_red_blue) 0 0 0 1 1 (Some 1) None None sample_store
       = Inr (False, sample_store)
   \<and> getImageData sample_api (sample_store 1) 0 0 1 1
       = Inr \<lparr> data = [10, 20, 30, 255], data_width = 1, data_height = 1 \<rparr>
   \<and> length [10, 20, 30, 255 :: nat] mod 4 = 0
   \<and> applyFilter sample_api (Some swap_red_blue) 1 0 0 1 1 None None None sample_store
       = Inr (True, sample_store(1 := (False, [30, 20, 10, 255])))"
proof -
  have g0: "getImageData sample_api (sample_store 0) 0 0 1 1 = Inl SecurityError"
    by (simp add: sample_api_def sample_store_def)
  have g1: "getImageData sample_api (sample_store 1) 0 0 1 1
       = Inr \<lparr> data = [10, 20, 30, 255], data_width = 1, data_height = 1 \<rparr>"
    by (simp add: sample_api_def sample_store_def)
  have l: "length [10, 20, 30, 255 :: nat] mod 4 = 0" by simp
  note c0 = applyFilter_catches [of sample_api sample_store 0 0 0 1 1 "Some swap_red_blue" "Some 1" None None]
  note c1 = applyFilter_catches [of sample_api sample_store 1 0 0 1 1 "Some swap_red_blue" None None None]
  from c0 g0 have r0: "applyFilter sample_api (Some swap_red_blue) 0 0 0 1 1 (Some 1) None None sample_store
       = Inr (False, sample_store)" by blast
  from c1 g1 l have "applyFilter sample_api (Some swap_red_blue) 1 0 0 1 1 None None None sample_store
       = Inr (True, sample_store(1 := putImageData sample_api
            (\<lparr> data = [10, 20, 30, 255], data_width = 1, data_height = 1 \<rparr>
               \<lparr>data := transform_pixels (toByte sample_api) swap_red_blue
                     (data \<lparr> data = [10, 20, 30, 255], data_width = 1, data_height = 1 \<rparr>)\<rparr>)
            None None (sample_store 1)))"
    by (auto simp del: fun_upd_apply)
  then have r1: "applyFilter sample_api (Some swap_red_blue) 1 0 0 1 1 None None None sample_store
       = Inr (True, sample_store(1 := (False, [30, 20, 10, 255])))"
    by (simp add: sample_api_def swap_red_blue_def channel_def coef_def js_mul_def js_add_def
          sample_store_def)
  from g0 r0 g1 l r1 show ?thesis by blast
qed

section \<open>Further properties of the scheduler\<close>

lemma indexOf_None: "indexOf xs x = None \<longleftrightarrow> x \<notin> set xs"
  by (induction xs) auto

lemma indexOf_Some:
  "indexOf xs x = Some i \<Longrightarrow> i < length xs \<and> xs ! i = x \<and> x \<notin> set (take i xs)"
proof (induction xs arbitrary: i)
  case Nil
  then show ?case by simp
next
  case (Cons y ys)
  show ?case
  proof (cases "y = x")
    case True
    with Cons.prems show ?thesis by simp
  next
    case False
    with Cons.prems obtain j where j: "indexOf ys x = Some j" and i: "i = Suc j" by auto
    from Cons.IH [OF j] i False show ?thesis by auto
  qed
qed

lemma splice1_removeAll:
  assumes "distinct xs" and "indexOf xs x = Some i"
  shows "splice1 i xs = removeAll x xs"
proof -
  from indexOf_Some [OF assms(2)]
  have i: "i < length xs" and x: "xs ! i = x" and n: "x \<notin> set (take i xs)" by simp_all
  have xs: "xs = take i xs @ x # drop (Suc i) xs"
    using id_take_nth_drop [OF i] x by simp
  with assms(1) have "distinct (take i xs @ x # drop (Suc i) xs)" by simp
  then have d: "x \<notin> set (drop (Suc i) xs)" by simp
  have "removeAll x xs = removeAll x (take i xs @ x # drop (Suc i) xs)" using xs by simp
  also have "\<dots> = take i xs @ drop (Suc i) xs" using n d by simp
  finally show ?thesis by (simp add: splice1_def)
qed

lemma removeListener_registers:
  assumes "distinct (listeners s)" and "length (pauseableArr s) = length (listeners s)"
  shows "listeners (removeListener ob s) = removeAll ob (listeners s)
         \<and> length (pauseableArr (removeListener ob s)) = length (listeners (removeListener ob s))"
proof (cases "indexOf (listeners s) ob")
  case None
  then have "ob \<notin> set (listeners s)" by (simp add: indexOf_None)
  with None assms show ?thesis by (simp add: removeListener_def)
next
  case (Some i)
  from indexOf_Some [OF Some] have "i < length (listeners s)" by simp
  with Some assms show ?thesis
    by (simp add: removeListener_def pauseableArr_def splice1_removeAll [symmetric])
       (simp add: splice1_def)
qed

text \<open>
  Registration in general: on a scheduler whose listener list has no duplicates and whose
  flag array has the same length, \<open>addListener\<close> leaves the object registered once, last,
  keeps both properties, and stores as its flag whether the argument was \<open>true\<close>.
\<close>

lemma addListener_registers:
  assumes "distinct (listeners s)" and "length (pauseableArr s) = length (listeners s)"
  shows "listeners (addListener ob p s) = removeAll ob (listeners s) @ [ob]
         \<and> distinct (listeners (addListener ob p s))
         \<and> length (pauseableArr (addListener ob p s)) = length (listeners (addListener ob p s))
         \<and> last (pauseableArr (addListener ob p s)) = (p = Some True)"
proof -
  define s1 where "s1 = (if \<not> inited s then requestAnimFrame (s\<lparr>inited := True\<rparr>) else s)"
  have s1: "listeners s1 = listeners s" "pauseableArr s1 = pauseableArr s"
    by (simp_all add: s1_def requestAnimFrame_def pauseableArr_def)
  with assms have a1: "distinct (listeners s1)" "length (pauseableArr s1) = length (listeners s1)"
    by simp_all
  define s2 where "s2 = removeListener ob s1"
  from removeListener_registers [OF a1] s1
  have s2: "listeners s2 = removeAll ob (listeners s)"
    "length (pauseableArr s2) = length (listeners s2)"
    by (simp_all add: s2_def)
  have eq: "addListener ob p s =
      (s2\<lparr>heap := (heap s2)(pauseable s2 :=
                 js_put (pauseableArr s2) (length (listeners s2))
                   (case p of Some True \<Rightarrow> True | _ \<Rightarrow> False))\<rparr>)\<lparr>listeners := listeners s2 @ [ob]\<rparr>"
    by (simp add: addListener_def s1_def s2_def Let_def)
  have flag: "(case p of Some True \<Rightarrow> True | _ \<Rightarrow> False) = (p = Some True)"
    by (auto split: option.splits bool.splits)
  show ?thesis
    using s2 assms(1) unfolding eq
    by (simp add: pauseableArr_def js_put_def flag distinct_removeAll)
qed

text \<open>
  A fire whose callbacks leave the scheduler alone: the listeners ticked are those of the
  registrations that are not \<open>null\<close>, have a \<open>tick\<close>, and are not pauseable while the
  scheduler is paused, each with the time since the previous fire.
\<close>

lemma tick_loop_quiet:
  assumes "\<forall>ob. tick_of ob = None \<or> tick_of ob = Some []"
    and "i + length ls \<le> length (heap s pa)"
  shows "tick_loop tick_of pz el pa ls i s =
           s\<lparr>calls := calls s @ List.map_filter (ticked tick_of pz el) (zip ls (drop i (heap s pa)))\<rparr>"
  using assms(2)
proof (induction ls arbitrary: i s)
  case Nil
  then show ?case by simp
next
  case (Cons l ls)
  from Cons.prems have i: "i < length (heap s pa)" by simp
  then have d: "drop i (heap s pa) = heap s pa ! i # drop (Suc i) (heap s pa)"
    by (simp add: Cons_nth_drop_Suc)
  have g: "js_get (heap s pa) i = heap s pa ! i" using i by (simp add: js_get_def)
  from Cons.prems have n: "Suc i + length ls \<le> length (heap s pa)" by simp
  show ?case
  proof (cases l)
    case None
    with Cons.IH [OF n] d show ?thesis
      by (auto simp: ticked_def)
  next
    case (Some ob)
    from assms(1) have "tick_of ob = None \<or> tick_of ob = Some []" by simp
    then show ?thesis
    proof
      assume t: "tick_of ob = None"
      with Some Cons.IH [OF n] d g show ?thesis
        by (auto simp: ticked_def)
    next
      assume t: "tick_of ob = Some []"
      show ?thesis
      proof (cases "pz \<and> heap s pa ! i")
        case True
        with t Some Cons.IH [OF n] d g show ?thesis
          by (auto simp: ticked_def)
      next
        case False
        let ?s1 = "s\<lparr>calls := calls s @ [(ob, el)]\<rparr>"
        have n1: "Suc i + length ls \<le> length (heap ?s1 pa)" using n by simp
        from Cons.IH [of "Suc i" ?s1, OF n1] False t Some d g show ?thesis
          by (auto simp: ticked_def)
      qed
    qed
  qed
qed

lemma tick_quiet_calls:
  assumes "\<forall>ob. tick_of ob = None \<or> tick_of ob = Some []"
    and "length (pauseableArr s) = length (listeners s)"
  shows "calls (tick tick_of now s) =
           calls s @ List.map_filter (ticked tick_of (paused s) (now - startTime s - lastTime s))
                       (zip (listeners s) (pauseableArr s))"
proof -
  define s4 where "s4 =
     (let s1 = requestAnimFrame s;
          s2 = s1\<lparr>ticks := ticks s1 + 1\<rparr>;
          time = getTime False now s2;
          elapsedTime = time - lastTime s2;
          s3 = (if paused s2 then s2\<lparr>pausedTickers := pausedTickers s2 + 1,
                              pausedTime := pausedTime s2 + elapsedTime\<rparr> else s2)
      in s3\<lparr>lastTime := time\<rparr>)"
  have f: "listeners s4 = listeners s" "heap s4 = heap s" "pauseable s4 = pauseable s"
    "calls s4 = calls s"
    by (simp_all add: s4_def requestAnimFrame_def Let_def)
  from assms(2) have len: "0 + length (listeners s4) \<le> length (heap s4 (pauseable s4))"
    by (simp add: f pauseableArr_def)
  have "calls (tick tick_of now s) =
          calls (tick_loop tick_of (paused s) (now - startTime s - lastTime s)
                   (pauseable s4) (listeners s4) 0 s4)"
    by (simp add: tick_def s4_def Let_def requestAnimFrame_def getTime_def)
  also have "\<dots> = calls s4 @ List.map_filter (ticked tick_of (paused s) (now - startTime s - lastTime s))
                       (zip (listeners s4) (drop 0 (heap s4 (pauseable s4))))"
    by (simp add: tick_loop_quiet [OF assms(1) len])
  finally show ?thesis by (simp add: f pauseableArr_def)
qed

section \<open>Further properties of the stage\<close>

text \<open>
  In every run of native events from a new stage \<open>_activeMouseEvent\<close> stays \<open>null\<close>, so
  no handler stored in a press event is ever called at a release.
\<close>

lemma deliver_release_calls:
  assumes "activeMouseEvent s = None" and "deliver hit objects ev s = Inr s'"
  shows "activeMouseEvent s' = None \<and> release_calls (dispatched s') = release_calls (dispatched s)"
proof (cases ev)
  case (MouseDown e)
  with assms show ?thesis
    by (auto simp: stage_defs release_calls_def split: option.splits)
next
  case (MouseMove e)
  with assms show ?thesis
    by (auto simp: stage_defs release_calls_def split: option.splits if_splits prod.splits)
next
  case (MouseUp e)
  with assms show ?thesis
    by (auto simp: stage_defs release_calls_def split: option.splits)
qed

lemma deliver_all_release_calls:
  "activeMouseEvent s = None \<Longrightarrow> deliver_all hit objects evs s = Inr s' \<Longrightarrow>
     activeMouseEvent s' = None \<and> release_calls (dispatched s') = release_calls (dispatched s)"
proof (induction evs arbitrary: s)
  case Nil
  then show ?case by simp
next
  case (Cons ev evs)
  from Cons.prems(2) obtain s1 where d: "deliver hit objects ev s = Inr s1"
    and r: "deliver_all hit objects evs s1 = Inr s'"
    by (auto split: sum.splits)
  from deliver_release_calls [OF Cons.prems(1) d]
  have a: "activeMouseEvent s1 = None"
    and c: "release_calls (dispatched s1) = release_calls (dispatched s)" by simp_all
  from Cons.IH [OF a r] c show ?case by simp
qed

lemma no_release_call:
  "deliver_all hit objects evs (Stage_new c) = Inr s' \<Longrightarrow> release_calls (dispatched s') = []"
  using deliver_all_release_calls [of "Stage_new c" hit objects evs s']
  by (simp add: Stage_new_def release_calls_def)

end
